theory Spec2Isabelle
  imports Complex_Main
begin

section \<open>Shared types\<close>

text \<open>
  \<open>~/constants/types\<close> is not among the sources; the records below hold the fields
  that the two source files read. \<open>CoinType.Solana\<close> is the only member of the enum that
  the code names; every other member is \<open>OtherCoin\<close> with its number.
\<close>

datatype CoinType = Solana | OtherCoin nat

record BlockchainToken =
  contractAddress :: string
  symbol :: string
  isToken :: bool
  chainId :: string

record NetworkInfo =
  network_coin :: CoinType
  network_chainId :: string
  network_symbol :: string

record WalletAccount =
  address :: string
  account_coin :: CoinType

section \<open>Amounts\<close>

text \<open>
  The class \<open>Amount\<close> of \<open>~/utils/amount\<close> is missing from the sources. The spec
  gives the pricing formula \<open>(R_quote - R_ref) / R_quote * 100\<close> over numbers and the
  thresholds as comparisons of numbers, so an amount is a rational number and its
  methods are the exact operations.
\<close>

type_synonym Amount = rat

text \<open>Modelled from the spec: the constructor of the missing class \<open>Amount\<close>, the
  number itself.\<close>

definition Amount_new :: "rat \<Rightarrow> Amount" where
  "Amount_new v = v"

text \<open>Modelled from the spec: \<open>Amount.zero()\<close> of the missing class \<open>Amount\<close>.\<close>

definition Amount_zero :: Amount where
  "Amount_zero = Amount_new 0"

text \<open>Modelled from the spec: \<open>div\<close> of the missing class \<open>Amount\<close>, exact division.
  It is the division of the field \<open>rat\<close>, whose value at a zero divisor is \<open>0\<close>; the
  spec fixes no value there.\<close>

definition Amount_div :: "Amount \<Rightarrow> rat \<Rightarrow> Amount" where
  "Amount_div a v = a / v"

text \<open>Modelled from the spec: \<open>minus\<close> of the missing class \<open>Amount\<close>, exact
  subtraction.\<close>

definition Amount_minus :: "Amount \<Rightarrow> Amount \<Rightarrow> Amount" where
  "Amount_minus a b = a - b"

text \<open>Modelled from the spec: \<open>times\<close> of the missing class \<open>Amount\<close>, exact
  multiplication.\<close>

definition Amount_times :: "Amount \<Rightarrow> rat \<Rightarrow> Amount" where
  "Amount_times a v = a * v"

text \<open>Modelled from the spec: \<open>gte\<close> of the missing class \<open>Amount\<close>, greater than or
  equal.\<close>

definition Amount_gte :: "Amount \<Rightarrow> rat \<Rightarrow> bool" where
  "Amount_gte a v \<longleftrightarrow> a \<ge> v"

section \<open>The quote display: \<open>quote-info.tsx\<close>\<close>

record LiquiditySource =
  source_name :: string

record QuoteOption =
  option_fromToken :: BlockchainToken
  option_toToken :: BlockchainToken
  rate :: Amount
  impact :: Amount
  minimumToAmount :: Amount
  sources :: "LiquiditySource list"
  routing :: string

text \<open>
  \<open>spotPrices\<close>, as the component reads it from the wallet state: two prices, each a
  number or undefined (the declaration of its type is not among the sources). The guard
  \<open>spotPrices.makerAsset && spotPrices.takerAsset\<close> tests truthiness: a price passes when
  it is present and not zero.
\<close>

record SpotPrices =
  makerAsset :: "rat option"
  takerAsset :: "rat option"

definition truthy_price :: "rat option \<Rightarrow> bool" where
  "truthy_price p = (case p of None \<Rightarrow> False | Some v \<Rightarrow> v \<noteq> 0)"

text \<open>
  Lines 92 to 101: the reference rate from the two spot prices, and the delta of the
  quoted rate against a reference rate.
\<close>

definition coinGeckoRate :: "rat \<Rightarrow> rat \<Rightarrow> Amount" where
  "coinGeckoRate maker taker = Amount_div (Amount_new maker) taker"

definition rateDelta :: "Amount \<Rightarrow> Amount \<Rightarrow> Amount" where
  "rateDelta quoteRate cgRate =
     Amount_times (Amount_div (Amount_minus quoteRate cgRate) quoteRate) 100"

definition coinGeckoDelta ::
  "BlockchainToken option \<Rightarrow> BlockchainToken option \<Rightarrow> SpotPrices
     \<Rightarrow> QuoteOption option \<Rightarrow> Amount" where
  "coinGeckoDelta fromToken toToken spotPrices selectedQuoteOption =
     (if fromToken \<noteq> None \<and> toToken \<noteq> None
         \<and> truthy_price (makerAsset spotPrices) \<and> truthy_price (takerAsset spotPrices)
         \<and> selectedQuoteOption \<noteq> None
      then (case (makerAsset spotPrices, takerAsset spotPrices, selectedQuoteOption) of
              (Some maker, Some taker, Some opt) \<Rightarrow>
                rateDelta (rate opt) (coinGeckoRate maker taker)
            | _ \<Rightarrow> Amount_zero)
      else Amount_zero)"

text \<open>
  \<open>coinGeckoDeltaText\<close> returns \<open>getLocale(key).replace('$1', x.format(2))\<close>. The locale
  table, \<open>replace\<close> and \<open>format\<close> are rendering; the model returns the locale key that
  is looked up and the amount \<open>x\<close> that is formatted into it.
\<close>

definition coinGeckoDeltaText :: "Amount \<Rightarrow> string \<times> Amount" where
  "coinGeckoDeltaText delta =
     (if Amount_gte delta 0 then (''braveSwapCoinGeckoCheaper'', delta)
      else if Amount_gte delta (- 1)
        then (''braveSwapCoinGeckoWithin'', Amount_times delta (- 1))
      else (''braveSwapCoinGeckoExpensive'', Amount_times delta (- 1)))"

definition coinGeckoDeltaColor :: "Amount \<Rightarrow> string" where
  "coinGeckoDeltaColor delta =
     (if Amount_gte delta (- 1) then ''success''
      else if Amount_gte delta (- 5) then ''warning''
      else ''error'')"

section \<open>The wallet state store\<close>

text \<open>
  \<open>Registry\<close> is a dictionary from an asset identifier to a value kept as text. The
  types of an exchange and of a gas estimate are not in the sources and no code here
  looks inside them.
\<close>

type_synonym Registry = "string \<rightharpoonup> string"

typedecl Exchange
typedecl GasEstimate

record WalletState =
  tokenBalances :: Registry
  tokenSpotPrices :: Registry
  tokenList :: "BlockchainToken list"
  selectedAccount :: "WalletAccount option"
  selectedNetwork :: "NetworkInfo option"
  isConnected :: bool
  supportedNetworks :: "NetworkInfo list"
  braveWalletAccounts :: "WalletAccount list"
  supportedExchanges :: "Exchange list"
  userSelectedExchanges :: "Exchange list"
  networkFeeEstimates :: "string \<rightharpoonup> GasEstimate"
  defaultBaseCurrency :: string
  isNetworkSupported :: bool

definition initialState :: WalletState where
  "initialState =
     \<lparr> tokenBalances = Map.empty,
       tokenSpotPrices = Map.empty,
       tokenList = [],
       selectedAccount = None,
       selectedNetwork = None,
       isConnected = False,
       supportedNetworks = [],
       braveWalletAccounts = [],
       supportedExchanges = [],
       userSelectedExchanges = [],
       networkFeeEstimates = Map.empty,
       defaultBaseCurrency = [],
       isNetworkSupported = True \<rparr>"

text \<open>
  One constructor for each \<open>action.type\<close> of the reducer's \<open>switch\<close>, with its payload;
  \<open>unknownAction\<close> is any action that reaches \<open>default\<close>.
\<close>

datatype WalletActions =
    updateTokenBalances Registry
  | updateTokenSpotPrices Registry
  | updateTokenList "BlockchainToken list"
  | updateSelectedNetwork "NetworkInfo option"
  | updateSupportedNetworks "NetworkInfo list"
  | updateIsNetworkSupported bool
  | updateSelectedAccount "WalletAccount option"
  | updateBraveWalletAccounts "WalletAccount list"
  | updateSupportedExchanges "Exchange list"
  | updateUserSelectedExchanges "Exchange list"
  | updateNetworkFeeEstimates "string \<rightharpoonup> GasEstimate"
  | updateDefaultBaseCurrency string
  | setIsConnected bool
  | unknownAction

fun WalletReducer :: "WalletState \<Rightarrow> WalletActions \<Rightarrow> WalletState" where
  "WalletReducer state (updateTokenBalances payload) =
     state\<lparr>tokenBalances := tokenBalances state ++ payload\<rparr>"
| "WalletReducer state (updateTokenSpotPrices payload) =
     state\<lparr>tokenBalances := payload\<rparr>"
| "WalletReducer state (updateTokenList payload) = state\<lparr>tokenList := payload\<rparr>"
| "WalletReducer state (updateSelectedNetwork payload) =
     state\<lparr>selectedNetwork := payload\<rparr>"
| "WalletReducer state (updateSupportedNetworks payload) =
     state\<lparr>supportedNetworks := payload\<rparr>"
| "WalletReducer state (updateIsNetworkSupported payload) =
     state\<lparr>isNetworkSupported := payload\<rparr>"
| "WalletReducer state (updateSelectedAccount payload) =
     state\<lparr>selectedAccount := payload\<rparr>"
| "WalletReducer state (updateBraveWalletAccounts payload) =
     state\<lparr>braveWalletAccounts := payload\<rparr>"
| "WalletReducer state (updateSupportedExchanges payload) =
     state\<lparr>supportedExchanges := payload\<rparr>"
| "WalletReducer state (updateUserSelectedExchanges payload) =
     state\<lparr>userSelectedExchanges := payload\<rparr>"
| "WalletReducer state (updateNetworkFeeEstimates payload) =
     state\<lparr>networkFeeEstimates := payload\<rparr>"
| "WalletReducer state (updateDefaultBaseCurrency payload) =
     state\<lparr>defaultBaseCurrency := payload\<rparr>"
| "WalletReducer state (setIsConnected payload) = state\<lparr>isConnected := payload\<rparr>"
| "WalletReducer state unknownAction = state"

section \<open>The quote hook: \<open>useJupiter.ts\<close>\<close>

text \<open>
  \<open>SwapParams\<close>: each field may be undefined. \<open>Partial<SwapParams>\<close> is the record of
  overrides: \<open>None\<close> is a key that is not there, \<open>Some v\<close> a key set to \<open>v\<close>, and
  \<open>v\<close> may itself be undefined. The object spread \<open>{...params, ...overrides}\<close> takes every
  key that the overrides have from the overrides.
\<close>

record SwapParams =
  fromToken :: "BlockchainToken option"
  toToken :: "BlockchainToken option"
  fromAmount :: "string option"
  slippagePercentage :: "rat option"

record SwapParamsOverrides =
  over_fromToken :: "BlockchainToken option option"
  over_toToken :: "BlockchainToken option option"
  over_fromAmount :: "string option option"
  over_slippagePercentage :: "rat option option"

definition spread :: "'a \<Rightarrow> 'a option \<Rightarrow> 'a" where
  "spread v over = (case over of None \<Rightarrow> v | Some w \<Rightarrow> w)"

definition overriddenParams :: "SwapParams \<Rightarrow> SwapParamsOverrides \<Rightarrow> SwapParams" where
  "overriddenParams params overrides =
     \<lparr> fromToken = spread (fromToken params) (over_fromToken overrides),
       toToken = spread (toToken params) (over_toToken overrides),
       fromAmount = spread (fromAmount params) (over_fromAmount overrides),
       slippagePercentage =
         spread (slippagePercentage params) (over_slippagePercentage overrides) \<rparr>"

text \<open>\<open>!s\<close> for a string that may be undefined: true when undefined or empty.\<close>

definition falsy_string :: "string option \<Rightarrow> bool" where
  "falsy_string s = (case s of None \<Rightarrow> True | Some t \<Rightarrow> t = [])"

text \<open>\<open>a || d\<close> for a string \<open>a\<close>: \<open>d\<close> when \<open>a\<close> is empty.\<close>

definition or_default :: "string \<Rightarrow> string \<Rightarrow> string" where
  "or_default a d = (if a = [] then d else a)"

text \<open>
  A route and a parsed error body are opaque to the hook: the type variables \<open>'r\<close> and
  \<open>'e\<close>. A quote response carries its list of routes.
\<close>

record 'r JupiterQuoteResponse =
  routes :: "'r list"

record JupiterSwapResponse =
  swapTransaction :: string
  setupTransaction :: "string option"
  cleanupTransaction :: "string option"

record JupiterQuoteParams =
  inputMint :: string
  quote_outputMint :: string
  amount :: "string option"
  quote_slippagePercentage :: "rat option"

record 'r JupiterSwapParams =
  userPublicKey :: string
  route :: "'r option"
  swap_outputMint :: string

record SendTransactionParams =
  encodedTransaction :: string
  send_from :: string
  skipPreflight :: bool

text \<open>
  The collaborators of the hook, as parameters. A call either returns or throws; what
  is thrown is kept as its message. \<open>JSON_parse\<close> is \<open>JSON.parse\<close> of that message read
  as an error body, which may throw in turn. \<open>WRAPPED_SOL_CONTRACT_ADDRESS\<close> is a
  constant of \<open>~/constants/magics\<close>, which is not among the sources.
\<close>

type_synonym thrown = string

record ('r, 'e) SwapContext =
  getJupiterQuote :: "JupiterQuoteParams \<Rightarrow> thrown + 'r JupiterQuoteResponse"
  getJupiterTransactionsPayload :: "'r JupiterSwapParams \<Rightarrow> thrown + JupiterSwapResponse"
  sendTransaction :: "SendTransactionParams \<Rightarrow> thrown option"
  JSON_parse :: "thrown \<Rightarrow> thrown + 'e"
  WRAPPED_SOL_CONTRACT_ADDRESS :: string

text \<open>The four \<open>useState\<close> cells of the hook.\<close>

record ('r, 'e) hook_state =
  quote :: "'r JupiterQuoteResponse option"
  error :: "'e option"
  loading :: bool
  selectedRoute :: "'r option"

text \<open>What a run does to the outside, in order.\<close>

datatype 'r effect =
    CallGetJupiterQuote JupiterQuoteParams
  | CallGetJupiterTransactionsPayload "'r JupiterSwapParams"
  | CallSendTransaction SendTransactionParams
  | ConsoleLog string thrown
  | ConsoleError string thrown

text \<open>\<open>selectedNetwork?.coin !== CoinType.Solana\<close>\<close>

definition notSolana :: "NetworkInfo option \<Rightarrow> bool" where
  "notSolana network =
     (case network of None \<Rightarrow> True | Some n \<Rightarrow> network_coin n \<noteq> Solana)"

text \<open>
  The \<open>catch\<close> block shared by \<open>refresh\<close> and \<open>exchange\<close>: log, then parse the message
  and store it as the error, or log again when parsing throws.
\<close>

definition catchJupiterError ::
  "('r, 'e) SwapContext \<Rightarrow> string \<Rightarrow> thrown \<Rightarrow> ('r, 'e) hook_state
     \<Rightarrow> ('r, 'e) hook_state \<times> 'r effect list" where
  "catchJupiterError ctx what e st =
     (case JSON_parse ctx e of
        Inr err \<Rightarrow> (st\<lparr>error := Some err\<rparr>, [ConsoleLog what e])
      | Inl e2 \<Rightarrow>
          (st, [ConsoleLog what e, ConsoleError ''Error parsing Jupiter response: '' e2]))"

text \<open>
  \<open>refresh\<close>: the value returned, the hook state after the run and the effects of the
  run.
\<close>

definition refresh ::
  "('r, 'e) SwapContext \<Rightarrow> WalletState \<Rightarrow> SwapParams \<Rightarrow> SwapParamsOverrides
     \<Rightarrow> ('r, 'e) hook_state
     \<Rightarrow> 'r JupiterQuoteResponse option \<times> ('r, 'e) hook_state \<times> 'r effect list" where
  "refresh ctx wallet params overrides st =
     (let p = overriddenParams params overrides in
      if notSolana (selectedNetwork wallet) then (None, st, [])
      else case (fromToken p, toToken p) of
        (Some fromTok, Some toTok) \<Rightarrow>
          if falsy_string (fromAmount p)
          then (None, st\<lparr>quote := None, error := None\<rparr>, [])
          else
            let st1 = st\<lparr>loading := True\<rparr>;
                args = \<lparr> inputMint =
                           or_default (contractAddress fromTok)
                             (WRAPPED_SOL_CONTRACT_ADDRESS ctx),
                         quote_outputMint =
                           or_default (contractAddress toTok)
                             (WRAPPED_SOL_CONTRACT_ADDRESS ctx),
                         amount = fromAmount p,
                         quote_slippagePercentage = slippagePercentage p \<rparr>
            in (case getJupiterQuote ctx args of
                  Inr response \<Rightarrow>
                    (Some response,
                     st1\<lparr>quote := Some response, loading := False\<rparr>,
                     [CallGetJupiterQuote args])
                | Inl e \<Rightarrow>
                    (case catchJupiterError ctx ''Error getting Jupiter quote: '' e st1 of
                       (st2, logs) \<Rightarrow>
                         (None, st2\<lparr>loading := False\<rparr>, CallGetJupiterQuote args # logs)))
      | _ \<Rightarrow> (None, st, []))"

text \<open>\<open>selectedRoute || quote.routes[0]\<close>; \<open>routes[0]\<close> of an empty array is undefined.\<close>

definition routeToSubmit :: "'r option \<Rightarrow> 'r list \<Rightarrow> 'r option" where
  "routeToSubmit sel rs =
     (case sel of
        Some r \<Rightarrow> Some r
      | None \<Rightarrow> (case rs of [] \<Rightarrow> None | r # _ \<Rightarrow> Some r))"

text \<open>\<open>exchange\<close>: the hook state after the run and the effects of the run.\<close>

definition exchange ::
  "('r, 'e) SwapContext \<Rightarrow> WalletState \<Rightarrow> SwapParams \<Rightarrow> ('r, 'e) hook_state
     \<Rightarrow> ('r, 'e) hook_state \<times> 'r effect list" where
  "exchange ctx wallet params st =
     (case quote st of
        None \<Rightarrow> (st, [])
      | Some q \<Rightarrow>
          if length (routes q) = 0 then (st, [])
          else if notSolana (selectedNetwork wallet) then (st, [])
          else (case toToken params of
            None \<Rightarrow> (st, [])
          | Some toTok \<Rightarrow>
              (case selectedAccount wallet of
                 None \<Rightarrow> (st, [])
               | Some account \<Rightarrow>
                   let st1 = st\<lparr>loading := True\<rparr>;
                       args = \<lparr> userPublicKey = address account,
                                route = routeToSubmit (selectedRoute st) (routes q),
                                swap_outputMint =
                                  or_default (contractAddress toTok)
                                    (WRAPPED_SOL_CONTRACT_ADDRESS ctx) \<rparr>
                   in (case getJupiterTransactionsPayload ctx args of
                         Inl e \<Rightarrow>
                           (case catchJupiterError ctx
                                   ''Error getting Jupiter swap transactions: '' e st1 of
                              (st2, logs) \<Rightarrow>
                                (st2\<lparr>loading := False\<rparr>,
                                 CallGetJupiterTransactionsPayload args # logs))
                       | Inr response \<Rightarrow>
                           let send = \<lparr> encodedTransaction = swapTransaction response,
                                        send_from = address account,
                                        skipPreflight = True \<rparr>
                           in (case sendTransaction ctx send of
                                 None \<Rightarrow>
                                   (st1\<lparr>loading := False\<rparr>,
                                    [CallGetJupiterTransactionsPayload args,
                                     CallSendTransaction send])
                               | Some e \<Rightarrow>
                                   (st1\<lparr>loading := False\<rparr>,
                                    [CallGetJupiterTransactionsPayload args,
                                     CallSendTransaction send,
                                     ConsoleError
                                       ''Error creating Solana transaction: '' e]))))))"

section \<open>Concrete inputs\<close>

text \<open>Values on which the definitions above are run.\<close>

definition sol_token :: BlockchainToken where
  "sol_token =
     \<lparr> contractAddress = [], symbol = ''SOL'', isToken = False, chainId = ''0x65'' \<rparr>"

definition usdc_token :: BlockchainToken where
  "usdc_token =
     \<lparr> contractAddress = ''EPjFWdd5AufqSSqeM2qN1xzybapC8G4wEGGkZwyTDt1v'',
       symbol = ''USDC'', isToken = True, chainId = ''0x65'' \<rparr>"

definition sample_option :: QuoteOption where
  "sample_option =
     \<lparr> option_fromToken = sol_token, option_toToken = usdc_token, rate = 22 / 10,
       impact = 1 / 100, minimumToAmount = 2, sources = [], routing = ''split'' \<rparr>"

definition solana_wallet :: WalletState where
  "solana_wallet =
     initialState
       \<lparr> selectedAccount := Some \<lparr> address = ''alice'', account_coin = Solana \<rparr>,
         selectedNetwork :=
           Some \<lparr> network_coin = Solana, network_chainId = ''0x65'',
                  network_symbol = ''SOL'' \<rparr> \<rparr>"

definition ethereum_wallet :: WalletState where
  "ethereum_wallet =
     initialState
       \<lparr> selectedAccount := Some \<lparr> address = ''alice'', account_coin = OtherCoin 60 \<rparr>,
         selectedNetwork :=
           Some \<lparr> network_coin = OtherCoin 60, network_chainId = ''0x1'',
                  network_symbol = ''ETH'' \<rparr> \<rparr>"

definition sample_params :: SwapParams where
  "sample_params =
     \<lparr> fromToken = Some sol_token, toToken = Some usdc_token, fromAmount = Some ''1000'',
       slippagePercentage = Some (1 / 2) \<rparr>"

definition no_overrides :: SwapParamsOverrides where
  "no_overrides =
     \<lparr> over_fromToken = None, over_toToken = None, over_fromAmount = None,
       over_slippagePercentage = None \<rparr>"

definition clear_amount :: SwapParamsOverrides where
  "clear_amount = no_overrides\<lparr>over_fromAmount := Some (Some [])\<rparr>"

text \<open>
  A context whose aggregator answers every request and whose wallet adapter rejects
  every transaction. Routes are numbered, error bodies are kept as text.
\<close>

definition rejecting_ctx :: "(nat, string) SwapContext" where
  "rejecting_ctx =
     \<lparr> getJupiterQuote = (\<lambda>_. Inr \<lparr>routes = [7, 8]\<rparr>),
       getJupiterTransactionsPayload =
         (\<lambda>_. Inr \<lparr> swapTransaction = ''tx'', setupTransaction = None,
                     cleanupTransaction = None \<rparr>),
       sendTransaction = (\<lambda>_. Some ''User rejected''),
       JSON_parse = (\<lambda>_. Inl ''SyntaxError''),
       WRAPPED_SOL_CONTRACT_ADDRESS = ''So11111111111111111111111111111111111111112'' \<rparr>"

definition idle_state :: "(nat, string) hook_state" where
  "idle_state = \<lparr> quote = None, error = None, loading = False, selectedRoute = None \<rparr>"

definition quoted_state :: "(nat, string) hook_state" where
  "quoted_state =
     \<lparr> quote = Some \<lparr>routes = [7, 8]\<rparr>, error = Some ''stale'', loading = False,
       selectedRoute = None \<rparr>"

definition no_routes_state :: "(nat, string) hook_state" where
  "no_routes_state = quoted_state\<lparr>quote := Some \<lparr>routes = []\<rparr>\<rparr>"

section \<open>Pricing reconciliation\<close>

text \<open>
  C1: with both tokens and the quote option defined and both spot prices non-zero, the
  delta is \<open>(R_quote - R_ref) / R_quote * 100\<close>, where \<open>R_quote\<close> is the rate of the
  quote option and \<open>R_ref\<close> the maker price over the taker price. Spot prices 100 and 50
  with a quoted rate of 2.2 give \<open>100 / 11\<close>, which is 9.09 to two decimals.
\<close>

theorem coinGeckoDelta_formula:
  assumes "maker \<noteq> 0" and "taker \<noteq> 0"
  shows "coinGeckoDelta (Some fromTok) (Some toTok)
           \<lparr>makerAsset = Some maker, takerAsset = Some taker\<rparr> (Some opt)
         = (rate opt - maker / taker) / rate opt * 100
       \<and> coinGeckoDelta (Some fromTok) (Some toTok)
           \<lparr>makerAsset = Some 100, takerAsset = Some 50\<rparr> (Some (opt\<lparr>rate := 22 / 10\<rparr>))
         = 100 / 11
       \<and> \<bar>100 / 11 - 909 / 100\<bar> < (1 / 200 :: rat)"
  using assms
  by (simp add: coinGeckoDelta_def truthy_price_def rateDelta_def coinGeckoRate_def
      Amount_new_def Amount_div_def Amount_minus_def Amount_times_def)

theorem coinGeckoDelta_formula_witness:
  "(100 :: rat) \<noteq> 0 \<and> (50 :: rat) \<noteq> 0
   \<and> coinGeckoDelta (Some sol_token) (Some usdc_token)
        \<lparr>makerAsset = Some 100, takerAsset = Some 50\<rparr> (Some sample_option)
      = (22 / 10 - 100 / 50) / (22 / 10) * 100"
  using coinGeckoDelta_formula [of 100 50 sol_token usdc_token sample_option]
  by (simp add: sample_option_def)

text \<open>
  C2: the text is the "cheaper" one exactly when \<open>delta \<ge> 0\<close>, the "within" one
  exactly when \<open>-1 \<le> delta < 0\<close> and the "more expensive" one exactly when
  \<open>delta < -1\<close>; a delta of 0 is "cheaper" and a delta of \<open>-1\<close> is "within".
\<close>

theorem coinGeckoDeltaText_classes:
  "(fst (coinGeckoDeltaText delta) = ''braveSwapCoinGeckoCheaper'' \<longleftrightarrow> delta \<ge> 0)
   \<and> (fst (coinGeckoDeltaText delta) = ''braveSwapCoinGeckoWithin''
          \<longleftrightarrow> - 1 \<le> delta \<and> delta < 0)
   \<and> (fst (coinGeckoDeltaText delta) = ''braveSwapCoinGeckoExpensive'' \<longleftrightarrow> delta < - 1)
   \<and> fst (coinGeckoDeltaText 0) = ''braveSwapCoinGeckoCheaper''
   \<and> fst (coinGeckoDeltaText (- 1)) = ''braveSwapCoinGeckoWithin''"
  by (auto simp add: coinGeckoDeltaText_def Amount_gte_def Amount_times_def)

text \<open>
  C3: the colour is \<open>success\<close> exactly when \<open>delta \<ge> -1\<close>, \<open>warning\<close> exactly when
  \<open>-5 \<le> delta < -1\<close> and \<open>error\<close> exactly when \<open>delta < -5\<close>.
\<close>

theorem coinGeckoDeltaColor_classes:
  "(coinGeckoDeltaColor delta = ''success'' \<longleftrightarrow> delta \<ge> - 1)
   \<and> (coinGeckoDeltaColor delta = ''warning'' \<longleftrightarrow> - 5 \<le> delta \<and> delta < - 1)
   \<and> (coinGeckoDeltaColor delta = ''error'' \<longleftrightarrow> delta < - 5)"
  by (auto simp add: coinGeckoDeltaColor_def Amount_gte_def)

text \<open>
  C7: the delta depends on the quoted rate and the reference rate only, and it does not
  change when both are multiplied by the same positive constant \<open>c\<close>: two sets of
  inputs with positive rates, the second with \<open>c\<close> times the quoted rate and \<open>c\<close> times
  the reference rate of the first, have the same delta. With \<open>c = 1\<close>: equal rates give
  equal deltas.
\<close>

theorem coinGeckoDelta_scale_invariant:
  assumes "0 < c" and "0 < rate opt"
    and "0 < maker" and "0 < taker" and "0 < maker'" and "0 < taker'"
    and "rate opt' = c * rate opt"
    and "maker' / taker' = c * (maker / taker)"
  shows "coinGeckoDelta (Some fromTok') (Some toTok')
           \<lparr>makerAsset = Some maker', takerAsset = Some taker'\<rparr> (Some opt')
         = coinGeckoDelta (Some fromTok) (Some toTok)
           \<lparr>makerAsset = Some maker, takerAsset = Some taker\<rparr> (Some opt)"
proof -
  have ne: "maker \<noteq> 0" "taker \<noteq> 0" "maker' \<noteq> 0" "taker' \<noteq> 0" "c \<noteq> 0" "rate opt \<noteq> 0"
    using assms by simp_all
  have cancel: "(c * x) / (c * y) = x / y" for x y :: rat
    using ne by simp
  have "c * rate opt - c * (maker / taker) = c * (rate opt - maker / taker)"
    by (simp only: right_diff_distrib)
  then have "(c * rate opt - c * (maker / taker)) / (c * rate opt)
        = (rate opt - maker / taker) / rate opt"
    using cancel [of "rate opt - maker / taker" "rate opt"] by simp
  then have "(rate opt' - maker' / taker') / rate opt' * 100
        = (rate opt - maker / taker) / rate opt * 100"
    by (simp only: assms(7,8))
  then show ?thesis
    using ne
    by (simp add: coinGeckoDelta_def truthy_price_def rateDelta_def coinGeckoRate_def
      Amount_new_def Amount_div_def Amount_minus_def Amount_times_def)
qed

theorem coinGeckoDelta_scale_invariant_witness:
  "(0 :: rat) < 3 \<and> 0 < rate sample_option
   \<and> rate (sample_option\<lparr>rate := 66 / 10\<rparr>) = 3 * rate sample_option
   \<and> (300 :: rat) / 50 = 3 * (100 / 50)
   \<and> coinGeckoDelta (Some usdc_token) (Some sol_token)
        \<lparr>makerAsset = Some 300, takerAsset = Some 50\<rparr>
        (Some (sample_option\<lparr>rate := 66 / 10\<rparr>))
      = coinGeckoDelta (Some sol_token) (Some usdc_token)
        \<lparr>makerAsset = Some 100, takerAsset = Some 50\<rparr> (Some sample_option)
   \<and> (0 :: rat) < 1 \<and> (200 :: rat) / 100 = 1 * (100 / 50)
   \<and> coinGeckoDelta (Some usdc_token) (Some sol_token)
        \<lparr>makerAsset = Some 200, takerAsset = Some 100\<rparr> (Some sample_option)
      = coinGeckoDelta (Some sol_token) (Some usdc_token)
        \<lparr>makerAsset = Some 100, takerAsset = Some 50\<rparr> (Some sample_option)"
  using coinGeckoDelta_scale_invariant
          [of 3 sample_option 100 50 300 50 "sample_option\<lparr>rate := 66 / 10\<rparr>"
              usdc_token sol_token sol_token usdc_token]
        coinGeckoDelta_scale_invariant
          [of 1 sample_option 100 50 200 100 sample_option
              usdc_token sol_token sol_token usdc_token]
  by (simp add: sample_option_def)

section \<open>The wallet reducer\<close>

text \<open>
  C4: the \<open>updateTokenSpotPrices\<close> case of the reducer, run on a state that holds the
  balance of \<open>a\<close> and no spot price, with a payload that prices \<open>b\<close>. The spot-price map
  of the result has no price for \<open>b\<close>; the balance of \<open>a\<close> is gone and the balances
  hold the payload.
\<close>

theorem WalletReducer_updateTokenSpotPrices_run:
  "tokenSpotPrices
     (WalletReducer (initialState\<lparr>tokenBalances := [''a'' \<mapsto> ''1'']\<rparr>)
        (updateTokenSpotPrices [''b'' \<mapsto> ''2''])) ''b'' = None
   \<and> tokenBalances
       (WalletReducer (initialState\<lparr>tokenBalances := [''a'' \<mapsto> ''1'']\<rparr>)
          (updateTokenSpotPrices [''b'' \<mapsto> ''2''])) ''a'' = None
   \<and> tokenBalances
       (WalletReducer (initialState\<lparr>tokenBalances := [''a'' \<mapsto> ''1'']\<rparr>)
          (updateTokenSpotPrices [''b'' \<mapsto> ''2''])) ''b'' = Some ''2''"
  by (simp add: initialState_def)

section \<open>The quote hook\<close>

text \<open>
  C5, as amended: \<open>refresh\<close> with an empty \<open>fromAmount\<close> (undefined or the empty
  string, after the overrides) has no effect on the outside, so it issues no call to
  the aggregator service. When the coin of the selected network is Solana and both
  tokens are present it clears the stored quote and the stored error; when the network
  is not Solana or a token is missing it leaves the hook state as it was.
\<close>

theorem refresh_empty_fromAmount:
  assumes "falsy_string (fromAmount (overriddenParams params overrides))"
  shows "snd (snd (refresh ctx wallet params overrides st)) = []
       \<and> fst (snd (refresh ctx wallet params overrides st))
         = (if \<not> notSolana (selectedNetwork wallet)
               \<and> fromToken (overriddenParams params overrides) \<noteq> None
               \<and> toToken (overriddenParams params overrides) \<noteq> None
            then st\<lparr>quote := None, error := None\<rparr>
            else st)"
  using assms by (auto simp: refresh_def Let_def split: option.splits)

theorem refresh_empty_fromAmount_witness:
  "falsy_string (fromAmount (overriddenParams sample_params clear_amount))
   \<and> snd (snd (refresh rejecting_ctx solana_wallet sample_params clear_amount quoted_state))
     = []
   \<and> fst (snd (refresh rejecting_ctx solana_wallet sample_params clear_amount quoted_state))
     = quoted_state\<lparr>quote := None, error := None\<rparr>"
  using refresh_empty_fromAmount
          [of sample_params clear_amount rejecting_ctx solana_wallet quoted_state]
  by (simp add: overriddenParams_def spread_def falsy_string_def notSolana_def
      sample_params_def clear_amount_def no_overrides_def solana_wallet_def
      initialState_def)

text \<open>
  C5, as stated, fails: on a network whose coin is not Solana, \<open>refresh\<close> with an empty
  \<open>fromAmount\<close> returns at the first guard and the stored quote and error stay.
\<close>

theorem refresh_empty_fromAmount_counterexample:
  "falsy_string (fromAmount (overriddenParams sample_params clear_amount))
   \<and> quote (fst (snd (refresh rejecting_ctx ethereum_wallet sample_params clear_amount
                        quoted_state)))
     = Some \<lparr>routes = [7, 8]\<rparr>
   \<and> error (fst (snd (refresh rejecting_ctx ethereum_wallet sample_params clear_amount
                        quoted_state)))
     = Some ''stale''"
  by (simp add: refresh_def overriddenParams_def spread_def falsy_string_def
      notSolana_def sample_params_def clear_amount_def no_overrides_def
      ethereum_wallet_def initialState_def quoted_state_def)

text \<open>
  C6: when the quote is absent or has no routes, \<open>exchange\<close> returns the hook state as
  it was (quote, error, loading and selected route) and has no effect on the outside:
  no call to the swap service or to the wallet adapter.
\<close>

theorem exchange_without_routes:
  assumes "quote st = None \<or> (\<exists>q. quote st = Some q \<and> routes q = [])"
  shows "exchange ctx wallet params st = (st, [])"
  using assms by (auto simp: exchange_def)

theorem exchange_without_routes_witness:
  "quote idle_state = None
   \<and> exchange rejecting_ctx solana_wallet sample_params idle_state = (idle_state, [])
   \<and> quote no_routes_state = Some \<lparr>routes = []\<rparr>
   \<and> exchange rejecting_ctx solana_wallet sample_params no_routes_state
     = (no_routes_state, [])"
  using exchange_without_routes [of idle_state rejecting_ctx solana_wallet sample_params]
        exchange_without_routes
          [of no_routes_state rejecting_ctx solana_wallet sample_params]
  by (simp add: idle_state_def no_routes_state_def quoted_state_def)

text \<open>
  C8: a run of \<open>refresh\<close> that calls \<open>getJupiterQuote\<close> has a selected network whose
  coin is Solana, both tokens present and a \<open>fromAmount\<close> that is neither undefined nor
  empty (all after the overrides).
\<close>

theorem refresh_fetch_guarded:
  assumes "CallGetJupiterQuote a \<in> set (snd (snd (refresh ctx wallet params overrides st)))"
  shows "(\<exists>n. selectedNetwork wallet = Some n \<and> network_coin n = Solana)
       \<and> fromToken (overriddenParams params overrides) \<noteq> None
       \<and> toToken (overriddenParams params overrides) \<noteq> None
       \<and> fromAmount (overriddenParams params overrides) \<noteq> None
       \<and> fromAmount (overriddenParams params overrides) \<noteq> Some []"
  using assms
  by (auto simp: refresh_def Let_def notSolana_def falsy_string_def
      split: option.splits if_splits)

theorem refresh_fetch_guarded_witness:
  "CallGetJupiterQuote
     \<lparr> inputMint = ''So11111111111111111111111111111111111111112'',
       quote_outputMint = ''EPjFWdd5AufqSSqeM2qN1xzybapC8G4wEGGkZwyTDt1v'',
       amount = Some ''1000'', quote_slippagePercentage = Some (1 / 2) \<rparr>
     \<in> set (snd (snd (refresh rejecting_ctx solana_wallet sample_params no_overrides
                         idle_state)))
   \<and> (\<exists>n. selectedNetwork solana_wallet = Some n \<and> network_coin n = Solana)
   \<and> fromToken (overriddenParams sample_params no_overrides) = Some sol_token
   \<and> toToken (overriddenParams sample_params no_overrides) = Some usdc_token
   \<and> fromAmount (overriddenParams sample_params no_overrides) = Some ''1000''"
  using refresh_fetch_guarded
          [of "\<lparr> inputMint = ''So11111111111111111111111111111111111111112'',
                 quote_outputMint = ''EPjFWdd5AufqSSqeM2qN1xzybapC8G4wEGGkZwyTDt1v'',
                 amount = Some ''1000'', quote_slippagePercentage = Some (1 / 2) \<rparr>"
              rejecting_ctx solana_wallet sample_params no_overrides idle_state]
  by (simp add: refresh_def overriddenParams_def spread_def falsy_string_def
      or_default_def notSolana_def sample_params_def no_overrides_def sol_token_def
      usdc_token_def solana_wallet_def initialState_def rejecting_ctx_def)

text \<open>
  C9: in a run of \<open>exchange\<close> that calls \<open>sendTransaction\<close> and in which that call
  throws, the stored error is the one from before the run; the whole hook state is the
  one from before with \<open>loading\<close> false, and the last effect is the \<open>console.error\<close> of
  what was thrown.
\<close>

theorem exchange_send_failure_logged:
  assumes "CallSendTransaction s \<in> set (snd (exchange ctx wallet params st))"
    and "sendTransaction ctx s = Some e"
  shows "error (fst (exchange ctx wallet params st)) = error st
       \<and> fst (exchange ctx wallet params st) = st\<lparr>loading := False\<rparr>
       \<and> last (snd (exchange ctx wallet params st))
         = ConsoleError ''Error creating Solana transaction: '' e"
  using assms
  by (auto simp: exchange_def Let_def catchJupiterError_def
      split: option.splits if_splits sum.splits prod.splits)

theorem exchange_send_failure_logged_witness:
  "CallSendTransaction
     \<lparr> encodedTransaction = ''tx'', send_from = ''alice'', skipPreflight = True \<rparr>
     \<in> set (snd (exchange rejecting_ctx solana_wallet sample_params quoted_state))
   \<and> sendTransaction rejecting_ctx
        \<lparr> encodedTransaction = ''tx'', send_from = ''alice'', skipPreflight = True \<rparr>
      = Some ''User rejected''
   \<and> error (fst (exchange rejecting_ctx solana_wallet sample_params quoted_state))
     = Some ''stale''
   \<and> last (snd (exchange rejecting_ctx solana_wallet sample_params quoted_state))
     = ConsoleError ''Error creating Solana transaction: '' ''User rejected''"
  using exchange_send_failure_logged
          [of "\<lparr> encodedTransaction = ''tx'', send_from = ''alice'',
                 skipPreflight = True \<rparr>"
              rejecting_ctx solana_wallet sample_params quoted_state "''User rejected''"]
  by (simp add: exchange_def or_default_def notSolana_def routeToSubmit_def
      sample_params_def usdc_token_def solana_wallet_def initialState_def
      rejecting_ctx_def quoted_state_def)

text \<open>
  C10: when \<open>exchange\<close> passes its guards (a quote with at least one route, a network
  whose coin is Solana, a \<open>toToken\<close> and a selected account), its first effect is the
  one call to \<open>getJupiterTransactionsPayload\<close> of the run, and the route of that call
  is the selected route when there is one and the first route of the quote otherwise.
\<close>

theorem exchange_submits_route:
  assumes "quote st = Some q" and "routes q \<noteq> []"
    and "selectedNetwork wallet = Some n" and "network_coin n = Solana"
    and "toToken params = Some toTok" and "selectedAccount wallet = Some account"
  shows "\<exists>rest.
           snd (exchange ctx wallet params st)
           = CallGetJupiterTransactionsPayload
               \<lparr> userPublicKey = address account,
                 route = Some (case selectedRoute st of
                                 Some r \<Rightarrow> r
                               | None \<Rightarrow> hd (routes q)),
                 swap_outputMint =
                   or_default (contractAddress toTok) (WRAPPED_SOL_CONTRACT_ADDRESS ctx) \<rparr>
             # rest
           \<and> (\<forall>a. CallGetJupiterTransactionsPayload a \<notin> set rest)"
  using assms
  by (auto simp: exchange_def Let_def catchJupiterError_def notSolana_def routeToSubmit_def
      split: option.splits if_splits sum.splits prod.splits list.splits)

theorem exchange_submits_route_witness:
  "quote quoted_state = Some \<lparr>routes = [7, 8]\<rparr>
   \<and> [7, 8] \<noteq> ([] :: nat list)
   \<and> hd (snd (exchange rejecting_ctx solana_wallet sample_params quoted_state))
     = CallGetJupiterTransactionsPayload
         \<lparr> userPublicKey = ''alice'', route = Some 7,
           swap_outputMint = ''EPjFWdd5AufqSSqeM2qN1xzybapC8G4wEGGkZwyTDt1v'' \<rparr>
   \<and> hd (snd (exchange rejecting_ctx solana_wallet sample_params
                 (quoted_state\<lparr>selectedRoute := Some 8\<rparr>)))
     = CallGetJupiterTransactionsPayload
         \<lparr> userPublicKey = ''alice'', route = Some 8,
           swap_outputMint = ''EPjFWdd5AufqSSqeM2qN1xzybapC8G4wEGGkZwyTDt1v'' \<rparr>"
  using exchange_submits_route
          [of quoted_state "\<lparr>routes = [7, 8]\<rparr>" solana_wallet
              "\<lparr> network_coin = Solana, network_chainId = ''0x65'',
                 network_symbol = ''SOL'' \<rparr>"
              sample_params usdc_token "\<lparr> address = ''alice'', account_coin = Solana \<rparr>"
              rejecting_ctx]
        exchange_submits_route
          [of "quoted_state\<lparr>selectedRoute := Some 8\<rparr>" "\<lparr>routes = [7, 8]\<rparr>" solana_wallet
              "\<lparr> network_coin = Solana, network_chainId = ''0x65'',
                 network_symbol = ''SOL'' \<rparr>"
              sample_params usdc_token "\<lparr> address = ''alice'', account_coin = Solana \<rparr>"
              rejecting_ctx]
  by (simp add: exchange_def or_default_def notSolana_def routeToSubmit_def
      sample_params_def usdc_token_def solana_wallet_def initialState_def
      rejecting_ctx_def quoted_state_def)

end
